theory Spec2Isabelle
  imports Complex_Main
begin

section \<open>JavaScript numbers\<close>

text \<open>
  The load generator (the stress-test script) computes with JavaScript numbers. A number is
  modelled as an exact rational \<open>Num q\<close>, one of the two infinities, or \<open>NaN\<close>. Division by
  zero, \<open>0 / 0\<close>, comparisons with \<open>NaN\<close> and \<open>Math.min\<close> follow IEEE 754 as JavaScript
  uses it. The operations of this section give the exact result; rounding it to a double is
  a separate step, \<open>js_round\<close> of the section on binary64 below. The zero has no sign.
\<close>

datatype jsnum = Num rat | PosInf | NegInf | NaN

fun js_neg :: "jsnum \<Rightarrow> jsnum" where
  "js_neg (Num x) = Num (- x)"
| "js_neg PosInf = NegInf"
| "js_neg NegInf = PosInf"
| "js_neg NaN = NaN"

fun js_add :: "jsnum \<Rightarrow> jsnum \<Rightarrow> jsnum" where
  "js_add (Num x) (Num y) = Num (x + y)"
| "js_add (Num x) PosInf = PosInf"
| "js_add (Num x) NegInf = NegInf"
| "js_add PosInf (Num y) = PosInf"
| "js_add NegInf (Num y) = NegInf"
| "js_add PosInf PosInf = PosInf"
| "js_add NegInf NegInf = NegInf"
| "js_add _ _ = NaN"

definition js_sub :: "jsnum \<Rightarrow> jsnum \<Rightarrow> jsnum" where
  "js_sub a b = js_add a (js_neg b)"

fun js_mul :: "jsnum \<Rightarrow> jsnum \<Rightarrow> jsnum" where
  "js_mul (Num x) (Num y) = Num (x * y)"
| "js_mul (Num x) PosInf = (if x = 0 then NaN else if 0 < x then PosInf else NegInf)"
| "js_mul (Num x) NegInf = (if x = 0 then NaN else if 0 < x then NegInf else PosInf)"
| "js_mul PosInf (Num y) = (if y = 0 then NaN else if 0 < y then PosInf else NegInf)"
| "js_mul NegInf (Num y) = (if y = 0 then NaN else if 0 < y then NegInf else PosInf)"
| "js_mul PosInf PosInf = PosInf"
| "js_mul NegInf NegInf = PosInf"
| "js_mul PosInf NegInf = NegInf"
| "js_mul NegInf PosInf = NegInf"
| "js_mul _ _ = NaN"

fun js_div :: "jsnum \<Rightarrow> jsnum \<Rightarrow> jsnum" where
  "js_div (Num x) (Num y) =
     (if y = 0 then (if x = 0 then NaN else if 0 < x then PosInf else NegInf)
      else Num (x / y))"
| "js_div (Num x) PosInf = Num 0"
| "js_div (Num x) NegInf = Num 0"
| "js_div PosInf (Num y) = (if 0 \<le> y then PosInf else NegInf)"
| "js_div NegInf (Num y) = (if 0 \<le> y then NegInf else PosInf)"
| "js_div _ _ = NaN"

text \<open>\<open>Math.ceil\<close>, \<open>Math.min\<close> and \<open>Math.max\<close>.\<close>

fun js_ceil :: "jsnum \<Rightarrow> jsnum" where
  "js_ceil (Num x) = Num (of_int \<lceil>x\<rceil>)"
| "js_ceil a = a"

fun js_min :: "jsnum \<Rightarrow> jsnum \<Rightarrow> jsnum" where
  "js_min NaN _ = NaN"
| "js_min _ NaN = NaN"
| "js_min NegInf _ = NegInf"
| "js_min _ NegInf = NegInf"
| "js_min PosInf b = b"
| "js_min a PosInf = a"
| "js_min (Num x) (Num y) = Num (min x y)"

text \<open>The comparisons \<open><\<close>, \<open><=\<close> and \<open>>=\<close>: each is false as soon as one side is \<open>NaN\<close>.\<close>

fun js_lt :: "jsnum \<Rightarrow> jsnum \<Rightarrow> bool" where
  "js_lt (Num x) (Num y) = (x < y)"
| "js_lt (Num x) PosInf = True"
| "js_lt NegInf (Num y) = True"
| "js_lt NegInf PosInf = True"
| "js_lt _ _ = False"

fun js_le :: "jsnum \<Rightarrow> jsnum \<Rightarrow> bool" where
  "js_le (Num x) (Num y) = (x \<le> y)"
| "js_le (Num x) PosInf = True"
| "js_le NegInf (Num y) = True"
| "js_le NegInf PosInf = True"
| "js_le NegInf NegInf = True"
| "js_le PosInf PosInf = True"
| "js_le _ _ = False"


text \<open>Truthiness of a number and \<open>a || d\<close>: \<open>0\<close> and \<open>NaN\<close> are falsy.\<close>

definition js_truthy :: "jsnum \<Rightarrow> bool" where
  "js_truthy a = (a \<noteq> NaN \<and> a \<noteq> Num 0)"

definition js_or :: "jsnum \<Rightarrow> jsnum \<Rightarrow> jsnum" where
  "js_or a d = (if js_truthy a then a else d)"


section \<open>Rounding to binary64\<close>

text \<open>
  A JavaScript number is an IEEE 754 binary64 value, and every arithmetic operation rounds
  its exact result to the nearest such value, ties to the even significand. \<open>binary64 x\<close>
  is that rounding of the exact rational \<open>x\<close>: with \<open>2 ^ e \<le> \<bar>x\<bar> < 2 ^ (e + 1)\<close> the
  result is a multiple of \<open>2 ^ (e - 52)\<close> (of \<open>2 ^ - 1074\<close> in the subnormal range, below
  \<open>2 ^ - 1022\<close>), and a result of \<open>2 ^ 1024\<close> or more is an infinity. \<open>js_round\<close> applies
  it to the result of an operation. The percentile index below is computed with it, since
  there a rounded product decides which element is returned. The batch arithmetic is left
  exact: its operands are request counts, and on integers below \<open>2 ^ 53\<close> the quotients and
  their ceilings agree with the exact ones.
\<close>

fun log2floor :: "nat \<Rightarrow> nat" where
  "log2floor n = (if n < 2 then 0 else 1 + log2floor (n div 2))"

declare log2floor.simps [simp del]

definition ilog2 :: "rat \<Rightarrow> int" where
  "ilog2 a =
     (if 1 \<le> a then int (log2floor (nat \<lfloor>a\<rfloor>))
      else - int (log2floor (nat \<lceil>1 / a\<rceil> - 1) + 1))"

definition round_even :: "rat \<Rightarrow> int" where
  "round_even m =
     (let f = \<lfloor>m\<rfloor>; d = m - of_int f
      in if d < 1 / 2 then f else if 1 / 2 < d then f + 1 else if even f then f else f + 1)"

definition binary64 :: "rat \<Rightarrow> jsnum" where
  "binary64 x =
     (if x = 0 then Num 0
      else (let a = \<bar>x\<bar>;
                e = max (ilog2 a) (- 1022);
                ulp = 2 powi (e - 52);
                r = of_int (round_even (a / ulp)) * ulp
            in if 2 powi 1024 \<le> r then (if x < 0 then NegInf else PosInf)
               else Num (if x < 0 then - r else r)))"

fun js_round :: "jsnum \<Rightarrow> jsnum" where
  "js_round (Num x) = binary64 x"
| "js_round a = a"

section \<open>Number formatting and parsing\<close>

text \<open>
  \<open>Number.prototype.toFixed(f)\<close> on a finite value below \<open>10 ^ 21\<close>: the integer \<open>n\<close> nearest
  to \<open>x * 10 ^ f\<close> (the larger one on a tie), written in decimal with the point before the
  last \<open>f\<close> digits; a negative value is formatted as its absolute value after a minus sign.
\<close>

fun nat_to_dec :: "nat \<Rightarrow> string" where
  "nat_to_dec n =
     (if n < 10 then [''0123456789'' ! n]
      else nat_to_dec (n div 10) @ [''0123456789'' ! (n mod 10)])"

declare nat_to_dec.simps [simp del]

definition toFixed :: "nat \<Rightarrow> rat \<Rightarrow> string" where
  "toFixed f x =
     (let s = (if x < 0 then ''-'' else []);
          a = \<bar>x\<bar>;
          n = nat \<lfloor>a * 10 ^ f + 1 / 2\<rfloor>;
          m = nat_to_dec n;
          m' = (if f \<noteq> 0 \<and> length m \<le> f then replicate (f + 1 - length m) CHR ''0'' @ m else m)
      in if f = 0 then s @ m'
         else s @ take (length m' - f) m' @ ''.'' @ drop (length m' - f) m')"

fun js_toFixed :: "nat \<Rightarrow> jsnum \<Rightarrow> string" where
  "js_toFixed f (Num x) = toFixed f x"
| "js_toFixed f PosInf = ''Infinity''"
| "js_toFixed f NegInf = ''-Infinity''"
| "js_toFixed f NaN = ''NaN''"

text \<open>
  \<open>parseInt(string)\<close> without a radix: leading white space is skipped, a sign is read, a
  \<open>0x\<close> prefix selects radix 16, and the longest prefix of digits is the value; with no digit
  the result is \<open>NaN\<close>. White space is the ASCII white space (strings are byte strings here).
  An absent value (\<open>undefined\<close>) is first converted to the string \<open>undefined\<close>.
\<close>

definition is_ws :: "char \<Rightarrow> bool" where
  "is_ws c = (c \<in> set [CHR 0x09, CHR 0x0A, CHR 0x0B, CHR 0x0C, CHR 0x0D, CHR 0x20])"

definition digit_val :: "char \<Rightarrow> nat option" where
  "digit_val c =
     (let n = (of_char c :: nat)
      in if 48 \<le> n \<and> n \<le> 57 then Some (n - 48)
         else if 97 \<le> n \<and> n \<le> 122 then Some (n - 87)
         else if 65 \<le> n \<and> n \<le> 90 then Some (n - 55)
         else None)"

definition radix_digit :: "nat \<Rightarrow> char \<Rightarrow> nat option" where
  "radix_digit R c = (case digit_val c of None \<Rightarrow> None | Some d \<Rightarrow> if d < R then Some d else None)"

fun read_digits :: "nat \<Rightarrow> string \<Rightarrow> nat list" where
  "read_digits R [] = []"
| "read_digits R (c # cs) =
     (case radix_digit R c of None \<Rightarrow> [] | Some d \<Rightarrow> d # read_digits R cs)"

definition parseInt :: "string \<Rightarrow> jsnum" where
  "parseInt inputString =
     (let S = dropWhile is_ws inputString;
          (sign, S1) =
            (case S of
               [] \<Rightarrow> (1 :: int, S)
             | c # cs \<Rightarrow> if c = CHR ''-'' then (- 1, cs) else if c = CHR ''+'' then (1, cs) else (1, S));
          (R, S2) =
            (case S1 of
               c # x # cs \<Rightarrow>
                 if c = CHR ''0'' \<and> (x = CHR ''x'' \<or> x = CHR ''X'') then (16 :: nat, cs) else (10, S1)
             | _ \<Rightarrow> (10, S1));
          Z = read_digits R S2
      in if Z = [] then NaN
         else Num (of_int (sign * int (foldl (\<lambda>a d. a * R + d) 0 Z))))"

definition js_ToString :: "string option \<Rightarrow> string" where
  "js_ToString v = (case v of None \<Rightarrow> ''undefined'' | Some s \<Rightarrow> s)"

section \<open>Configuration\<close>

text \<open>
  The \<open>CONFIG\<close> object of the script. It is built when the module is loaded, from the process
  environment (a map from variable names to strings), and \<open>parseArgs\<close> then overwrites fields
  from the command line. \<open>baseURL\<close> is optional because \<open>--base-url\<close> as the last argument
  stores \<open>undefined\<close>.
\<close>

record config =
  cfg_baseURL :: "string option"
  cfg_endpoint :: string
  cfg_concurrentRequests :: jsnum
  cfg_totalRequests :: jsnum
  cfg_delayBetweenBatches :: jsnum
  cfg_timeout :: jsnum
  cfg_verbose :: bool

definition CONFIG :: "(string \<Rightarrow> string option) \<Rightarrow> config" where
  "CONFIG env =
     \<lparr>cfg_baseURL =
        (case env ''BASE_URL'' of
           None \<Rightarrow> Some ''http://localhost:3000''
         | Some u \<Rightarrow> if u = [] then Some ''http://localhost:3000'' else Some u),
      cfg_endpoint = ''/pi'',
      cfg_concurrentRequests = js_or (parseInt (js_ToString (env ''CONCURRENT_REQUESTS''))) (Num 10),
      cfg_totalRequests = js_or (parseInt (js_ToString (env ''TOTAL_REQUESTS''))) (Num 100),
      cfg_delayBetweenBatches =
        js_or (parseInt (js_ToString (env ''DELAY_BETWEEN_BATCHES''))) (Num 1000),
      cfg_timeout = js_or (parseInt (js_ToString (env ''TIMEOUT''))) (Num 5000),
      cfg_verbose = (env ''VERBOSE'' = Some ''true'')\<rparr>"

text \<open>
  \<open>parseArgs\<close> walks \<open>process.argv.slice(2)\<close>. An option with a value reads \<open>args[++i]\<close>, which
  is \<open>undefined\<close> past the end. \<open>--help\<close> leaves the process with exit code 0 (\<open>Inl 0\<close>). An
  unknown argument is skipped (the warning it may log is not modelled).
\<close>

definition next_arg :: "string list \<Rightarrow> string option" where
  "next_arg rest = (case rest of [] \<Rightarrow> None | v # _ \<Rightarrow> Some v)"

function parseArgs :: "string list \<Rightarrow> config \<Rightarrow> int + config" where
  "parseArgs [] cfg = Inr cfg"
| "parseArgs (arg # rest) cfg =
     (if arg = ''--help'' \<or> arg = ''-h'' then Inl 0
      else if arg = ''--concurrent''
        then parseArgs (tl rest) (cfg\<lparr>cfg_concurrentRequests := parseInt (js_ToString (next_arg rest))\<rparr>)
      else if arg = ''--total''
        then parseArgs (tl rest) (cfg\<lparr>cfg_totalRequests := parseInt (js_ToString (next_arg rest))\<rparr>)
      else if arg = ''--delay''
        then parseArgs (tl rest) (cfg\<lparr>cfg_delayBetweenBatches := parseInt (js_ToString (next_arg rest))\<rparr>)
      else if arg = ''--timeout''
        then parseArgs (tl rest) (cfg\<lparr>cfg_timeout := parseInt (js_ToString (next_arg rest))\<rparr>)
      else if arg = ''--base-url''
        then parseArgs (tl rest) (cfg\<lparr>cfg_baseURL := next_arg rest\<rparr>)
      else if arg = ''--verbose''
        then parseArgs rest (cfg\<lparr>cfg_verbose := True\<rparr>)
      else parseArgs rest cfg)"
  by pat_completeness auto
termination
  by (relation "measure (\<lambda>(args, cfg). length args)") auto

section \<open>Statistics and a single request\<close>

text \<open>
  The global \<open>stats\<close> object. Counters are natural numbers, elapsed times are rationals,
  \<open>minResponseTime\<close> starts at \<open>Infinity\<close>. An entry of \<open>errors\<close> is the triple of request
  identifier, error message and elapsed time.
\<close>

record stats =
  totalRequests :: nat
  successfulRequests :: nat
  failedRequests :: nat
  totalResponseTime :: rat
  minResponseTime :: jsnum
  maxResponseTime :: rat
  responseTimes :: "rat list"
  startTime :: rat
  endTime :: rat
  errors :: "(jsnum \<times> string \<times> rat) list"

definition stats_init :: stats where
  "stats_init =
     \<lparr>totalRequests = 0, successfulRequests = 0, failedRequests = 0, totalResponseTime = 0,
      minResponseTime = PosInf, maxResponseTime = 0, responseTimes = [], startTime = 0,
      endTime = 0, errors = []\<rparr>"

text \<open>
  What the network and the clock contribute to one request: the two readings of
  \<open>performance.now()\<close> (when the request starts and when it settles) and how \<open>api.get\<close>
  settles, resolved with a status code or rejected with an error message.
\<close>

datatype api_result = Resolved int | Rejected string

type_synonym settle = "rat \<times> rat \<times> api_result"

datatype request_outcome = Success rat int | Failure rat string

definition finally_block :: "stats \<Rightarrow> stats" where
  "finally_block s = s\<lparr>totalRequests := totalRequests s + 1\<rparr>"

text \<open>
  \<open>makeRequest\<close> from the point where \<open>api.get\<close> settles: the \<open>try\<close> branch or the \<open>catch\<close>
  branch, then the \<open>finally\<close> block. JavaScript runs this continuation without interruption,
  so it is one step on the statistics. The statements after the \<open>await\<close> are arithmetic, an
  array push and logging, which raise no exception, so a resolved request never reaches the
  \<open>catch\<close> branch. The verbose log line is not modelled.
\<close>

fun makeRequest :: "jsnum \<Rightarrow> settle \<Rightarrow> stats \<Rightarrow> request_outcome \<times> stats" where
  "makeRequest requestId (t0, t1, Resolved status) s =
     (let responseTime = t1 - t0;
          s1 = s\<lparr>successfulRequests := successfulRequests s + 1\<rparr>;
          s2 = s1\<lparr>totalResponseTime := totalResponseTime s1 + responseTime\<rparr>;
          s3 = s2\<lparr>minResponseTime := js_min (minResponseTime s2) (Num responseTime)\<rparr>;
          s4 = s3\<lparr>maxResponseTime := max (maxResponseTime s3) responseTime\<rparr>;
          s5 = s4\<lparr>responseTimes := responseTimes s4 @ [responseTime]\<rparr>
      in (Success responseTime status, finally_block s5))"
| "makeRequest requestId (t0, t1, Rejected message) s =
     (let responseTime = t1 - t0;
          s1 = s\<lparr>failedRequests := failedRequests s + 1\<rparr>;
          s2 = s1\<lparr>errors := errors s1 @ [(requestId, message, responseTime)]\<rparr>
      in (Failure responseTime message, finally_block s2))"

section \<open>One batch of concurrent requests\<close>

text \<open>
  \<open>executeConcurrentRequests(batchNumber, batchSize)\<close>. The \<open>for\<close> loop starts one request
  per \<open>i < batchSize\<close> with the identifier \<open>batchNumber * batchSize + i + 1\<close>; an infinite
  \<open>batchSize\<close> keeps it running for ever, which is the value \<open>None\<close>. The parameter \<open>world\<close>
  gives, for batch \<open>b\<close> and offset \<open>i\<close>, how that request settles. \<open>Promise.all\<close> then waits
  for all of them: the requests update the statistics in the order of their settling times
  (requests that settle at the same reading keep their dispatch order).
\<close>

definition requestId_of :: "nat \<Rightarrow> jsnum \<Rightarrow> nat \<Rightarrow> jsnum" where
  "requestId_of batchNumber batchSize i =
     js_add (js_add (js_mul (Num (of_nat batchNumber)) batchSize) (Num (of_nat i))) (Num 1)"

partial_function (option) dispatch_loop ::
  "(nat \<Rightarrow> nat \<Rightarrow> settle) \<Rightarrow> nat \<Rightarrow> jsnum \<Rightarrow> nat \<Rightarrow> (jsnum \<times> settle) list
     \<Rightarrow> (jsnum \<times> settle) list option" where
  "dispatch_loop world batchNumber batchSize i promises =
     (if js_lt (Num (of_nat i)) batchSize
      then (let requestId = requestId_of batchNumber batchSize i
            in dispatch_loop world batchNumber batchSize (i + 1)
                 (promises @ [(requestId, world batchNumber i)]))
      else Some promises)"

declare dispatch_loop.simps [code]

definition settle_all :: "(jsnum \<times> settle) list \<Rightarrow> stats \<Rightarrow> stats" where
  "settle_all promises s =
     foldl (\<lambda>s' (requestId, c). snd (makeRequest requestId c s')) s
       (sort_key (\<lambda>(requestId, t0, t1, r). t1) promises)"

definition executeConcurrentRequests ::
  "(nat \<Rightarrow> nat \<Rightarrow> settle) \<Rightarrow> nat \<Rightarrow> jsnum \<Rightarrow> stats \<Rightarrow> (jsnum list \<times> stats) option" where
  "executeConcurrentRequests world batchNumber batchSize s =
     (case dispatch_loop world batchNumber batchSize 0 [] of
        None \<Rightarrow> None
      | Some promises \<Rightarrow> Some (map fst promises, settle_all promises s))"

section \<open>The batch loop\<close>

text \<open>
  \<open>runStressTest\<close>: the two constants computed before the loop, and the loop over \<open>batch\<close>.
  The loop state is the statistics together with a log of the batches issued so far, each
  with its \<open>currentBatchSize\<close> and the identifiers it dispatched (the script prints the size
  in its "Starting batch" line and the identifiers in verbose mode). The pause between two
  batches changes no state and is left out. A loop that never ends is the value \<open>None\<close>.
\<close>

type_synonym batch_log = "(jsnum \<times> jsnum list) list"

definition numBatches :: "config \<Rightarrow> jsnum" where
  "numBatches cfg = js_ceil (js_div (cfg_totalRequests cfg) (cfg_concurrentRequests cfg))"

definition requestsPerBatch :: "config \<Rightarrow> jsnum" where
  "requestsPerBatch cfg = js_ceil (js_div (cfg_totalRequests cfg) (numBatches cfg))"

partial_function (option) batch_loop ::
  "(nat \<Rightarrow> nat \<Rightarrow> settle) \<Rightarrow> config \<Rightarrow> nat \<Rightarrow> batch_log \<times> stats
     \<Rightarrow> (batch_log \<times> stats) option" where
  "batch_loop world cfg batch st =
     (if js_lt (Num (of_nat batch)) (numBatches cfg)
      then (let remainingRequests =
                  js_sub (cfg_totalRequests cfg)
                    (js_mul (Num (of_nat batch)) (requestsPerBatch cfg));
                currentBatchSize = js_min (requestsPerBatch cfg) remainingRequests
            in if js_le currentBatchSize (Num 0) then Some st
               else (case executeConcurrentRequests world batch currentBatchSize (snd st) of
                       None \<Rightarrow> None
                     | Some (ids, s') \<Rightarrow>
                         batch_loop world cfg (batch + 1)
                           (fst st @ [(currentBatchSize, ids)], s')))
      else Some st)"

declare batch_loop.simps [code]

section \<open>The report\<close>

text \<open>
  \<open>calculatePercentile\<close>: the values are sorted ascending with the numeric comparator. The
  index \<open>Math.ceil((percentile / 100) * sorted.length) - 1\<close> is computed in double
  arithmetic: the quotient, the product and the difference are each rounded to binary64
  (the ceiling of a double is exact). \<open>sorted[index]\<close> is an element only for an integer
  index within the array, and \<open>sorted[index] || 0\<close> is \<open>0\<close> when it is not and when the
  element itself is \<open>0\<close>. The percentile is a finite double handed in by the caller.
\<close>

definition calculatePercentile :: "rat list \<Rightarrow> rat \<Rightarrow> rat" where
  "calculatePercentile values percentile =
     (let sorted = sort values;
          index =
            js_round (js_sub
              (js_ceil (js_round (js_mul (js_round (js_div (Num percentile) (Num 100)))
                 (Num (of_nat (length sorted))))))
              (Num 1))
      in case index of
           Num i \<Rightarrow>
             if i = of_int \<lfloor>i\<rfloor> \<and> 0 \<le> i \<and> i < of_nat (length sorted)
             then (if sorted ! nat \<lfloor>i\<rfloor> \<noteq> 0 then sorted ! nat \<lfloor>i\<rfloor> else 0)
             else 0
         | _ \<Rightarrow> 0)"

text \<open>
  \<open>printStatistics\<close>: the computed figures, the five printed lines that show the counters,
  the success rate and the throughput, and the percentiles when there was a success. The
  duration line and the error summary are not modelled.
\<close>

record report =
  rep_duration :: rat
  rep_avgResponseTime :: jsnum
  rep_successRate :: jsnum
  rep_requestsPerSecond :: jsnum
  rep_lines :: "string list"
  rep_percentiles :: "(rat \<times> rat \<times> rat \<times> rat) option"

definition printStatistics :: "stats \<Rightarrow> report" where
  "printStatistics s =
     (let duration = endTime s - startTime s;
          avgResponseTime =
            (if successfulRequests s > 0
             then js_div (Num (totalResponseTime s)) (Num (of_nat (successfulRequests s)))
             else Num 0);
          successRate =
            js_mul (js_div (Num (of_nat (successfulRequests s))) (Num (of_nat (totalRequests s))))
              (Num 100);
          requestsPerSecond =
            js_div (Num (of_nat (totalRequests s))) (js_div (Num duration) (Num 1000))
      in \<lparr>rep_duration = duration,
          rep_avgResponseTime = avgResponseTime,
          rep_successRate = successRate,
          rep_requestsPerSecond = requestsPerSecond,
          rep_lines =
            [''Total Requests: '' @ nat_to_dec (totalRequests s),
             ''Successful: '' @ nat_to_dec (successfulRequests s),
             ''Failed: '' @ nat_to_dec (failedRequests s),
             ''Success Rate: '' @ js_toFixed 2 successRate @ ''%'',
             ''Requests/Second: '' @ js_toFixed 2 requestsPerSecond],
          rep_percentiles =
            (if successfulRequests s > 0
             then Some (calculatePercentile (responseTimes s) 50,
                        calculatePercentile (responseTimes s) 90,
                        calculatePercentile (responseTimes s) 95,
                        calculatePercentile (responseTimes s) 99)
             else None)\<rparr>)"

text \<open>
  The whole run: \<open>now0\<close> and \<open>now1\<close> are the clock readings stored in \<open>startTime\<close> and
  \<open>endTime\<close>, and \<open>s\<close> is the global statistics object when the run starts.
\<close>

definition runStressTest ::
  "(nat \<Rightarrow> nat \<Rightarrow> settle) \<Rightarrow> rat \<Rightarrow> rat \<Rightarrow> config \<Rightarrow> stats
     \<Rightarrow> (batch_log \<times> stats \<times> report) option" where
  "runStressTest world now0 now1 cfg s =
     (case batch_loop world cfg 0 ([], s\<lparr>startTime := now0\<rparr>) of
        None \<Rightarrow> None
      | Some (batches, s1) \<Rightarrow>
          (let s2 = s1\<lparr>endTime := now1\<rparr> in Some (batches, s2, printStatistics s2)))"

section \<open>The HTTP service\<close>









section \<open>Concrete values used below\<close>

lemma parseInt_undefined: "parseInt ''undefined'' = NaN"
  by (simp add: parseInt_def is_ws_def radix_digit_def digit_val_def)

lemma parseInt_zero: "parseInt ''0'' = Num 0"
  by (simp add: parseInt_def is_ws_def radix_digit_def digit_val_def)

lemma CONFIG_no_env:
  "CONFIG (\<lambda>k. None) =
     \<lparr>cfg_baseURL = Some ''http://localhost:3000'', cfg_endpoint = ''/pi'',
      cfg_concurrentRequests = Num 10, cfg_totalRequests = Num 100,
      cfg_delayBetweenBatches = Num 1000, cfg_timeout = Num 5000, cfg_verbose = False\<rparr>"
  by (simp add: CONFIG_def js_ToString_def parseInt_undefined js_or_def js_truthy_def)

text \<open>Ceiling and floor of a quotient of two numerals, for evaluating concrete inputs.\<close>

lemma ceiling_rat_numeral [simp]:
  "\<lceil>numeral a / numeral b :: rat\<rceil> = - (- numeral a div numeral b)"
  using ceiling_divide_eq_div[of "numeral a" "numeral b", where ?'a = rat] by simp

lemma floor_rat_numeral [simp]:
  "\<lfloor>numeral a / numeral b :: rat\<rfloor> = numeral a div numeral b"
  using floor_divide_of_int_eq[of "numeral a" "numeral b", where ?'a = rat] by simp

lemma upt_0_2: "[0..<2] = [0, 1]"
  by (simp add: upt_rec)

lemma upt_0_3: "[0..<3] = [0, 1, 2]"
  by (simp add: upt_rec)

section \<open>The dispatch loop of one batch\<close>

lemma of_nat_less_ceiling: "(of_nat i < (q::rat)) \<longleftrightarrow> i < nat \<lceil>q\<rceil>"
proof -
  have "(of_nat i < q) = (int i < \<lceil>q\<rceil>)"
    by (simp add: less_ceiling_iff)
  then show ?thesis by auto
qed

text \<open>With a finite batch size \<open>q\<close> the loop runs for the offsets below \<open>\<lceil>q\<rceil>\<close> and returns.\<close>

lemma dispatch_loop_Num:
  "dispatch_loop world bn (Num q) i ps =
     Some (ps @ map (\<lambda>j. (requestId_of bn (Num q) j, world bn j)) [i..<nat \<lceil>q\<rceil>])"
proof (induction "nat \<lceil>q\<rceil> - i" arbitrary: i ps)
  case 0
  then have "\<not> i < nat \<lceil>q\<rceil>" by simp
  then show ?case
    by (subst dispatch_loop.simps) (simp add: of_nat_less_ceiling)
next
  case (Suc d)
  then have lt: "i < nat \<lceil>q\<rceil>" and d: "d = nat \<lceil>q\<rceil> - Suc i" by simp_all
  from lt have up: "[i..<nat \<lceil>q\<rceil>] = i # [Suc i..<nat \<lceil>q\<rceil>]"
    by (simp add: upt_conv_Cons)
  have step: "dispatch_loop world bn (Num q) i ps =
      dispatch_loop world bn (Num q) (Suc i) (ps @ [(requestId_of bn (Num q) i, world bn i)])"
    by (subst dispatch_loop.simps) (simp add: lt of_nat_less_ceiling)
  show ?case
    unfolding step Suc.hyps(1)[OF d] up by simp
qed

lemma dispatch_loop_NaN: "dispatch_loop world bn NaN i ps = Some ps"
  by (subst dispatch_loop.simps) simp

lemma dispatch_loop_NegInf: "dispatch_loop world bn NegInf i ps = Some ps"
  by (subst dispatch_loop.simps) simp

text \<open>With an infinite batch size the loop never returns.\<close>

lemma dispatch_loop_PosInf: "dispatch_loop world bn PosInf i ps = None"
proof (cases "dispatch_loop world bn PosInf i ps")
  case None
  then show ?thesis .
next
  case (Some y)
  have "PosInf \<noteq> PosInf"
    by (rule dispatch_loop.raw_induct[where P = "\<lambda>world bn bs i ps y. bs \<noteq> PosInf", OF _ Some])
       (auto split: if_splits)
  then show ?thesis by simp
qed

lemma executeConcurrentRequests_Num:
  "executeConcurrentRequests world bn (Num q) s =
     Some (map (requestId_of bn (Num q)) [0..<nat \<lceil>q\<rceil>],
           settle_all (map (\<lambda>j. (requestId_of bn (Num q) j, world bn j)) [0..<nat \<lceil>q\<rceil>]) s)"
  by (simp add: executeConcurrentRequests_def dispatch_loop_Num comp_def)

section \<open>The batch loop covers the total\<close>









text \<open>With a total of zero the loop body never runs, whatever the concurrency is.\<close>

lemma batch_loop_zero_total:
  assumes "cfg_totalRequests cfg = Num 0"
  shows "batch_loop world cfg 0 st = Some st"
proof -
  have "numBatches cfg = Num 0 \<or> numBatches cfg = NaN"
    using assms by (cases "cfg_concurrentRequests cfg") (auto simp: numBatches_def)
  then show ?thesis
    by (subst batch_loop.simps) auto
qed




section \<open>Concurrency 5, total 12\<close>

text \<open>
  Claim C2. With concurrency 5 and total 12 the ceiling formula gives \<open>numBatches = 3\<close> and
  \<open>requestsPerBatch = ceil(12 / 3) = 4\<close>, and the loop issues exactly three batches, of sizes
  4, 4 and 4: the even redistribution of the formula, not the chunks 5, 5, 2 of the
  concurrency level.
\<close>

theorem batches_5_12:
  assumes "cfg_concurrentRequests cfg = Num 5" and "cfg_totalRequests cfg = Num 12"
  shows "numBatches cfg = Num 3 \<and> requestsPerBatch cfg = Num 4 \<and>
    (\<exists>batches s'. batch_loop world cfg 0 ([], s) = Some (batches, s') \<and>
       length batches = 3 \<and> map fst batches = [Num 4, Num 4, Num 4] \<and>
       map fst batches \<noteq> [Num 5, Num 5, Num 2])"
proof -
  have nb: "numBatches cfg = Num 3"
    using assms by (simp add: numBatches_def)
  have rpb: "requestsPerBatch cfg = Num 4"
    using assms by (simp add: requestsPerBatch_def nb)
  have "\<exists>batches s'. batch_loop world cfg 0 ([], s) = Some (batches, s') \<and>
       length batches = 3 \<and> map fst batches = [Num 4, Num 4, Num 4] \<and>
       map fst batches \<noteq> [Num 5, Num 5, Num 2]"
    by (simp add: batch_loop.simps nb rpb assms js_sub_def executeConcurrentRequests_Num Let_def)
  with nb rpb show ?thesis by simp
qed

text \<open>The theorem on the default configuration with \<open>--concurrent 5 --total 12\<close>.\<close>

theorem batches_5_12_witness:
  "numBatches ((CONFIG (\<lambda>k. None))\<lparr>cfg_concurrentRequests := Num 5, cfg_totalRequests := Num 12\<rparr>) = Num 3 \<and>
   requestsPerBatch ((CONFIG (\<lambda>k. None))\<lparr>cfg_concurrentRequests := Num 5, cfg_totalRequests := Num 12\<rparr>) = Num 4 \<and>
   (\<exists>batches s'.
      batch_loop (\<lambda>b i. (0, 1, Resolved 200))
        ((CONFIG (\<lambda>k. None))\<lparr>cfg_concurrentRequests := Num 5, cfg_totalRequests := Num 12\<rparr>) 0
        ([], stats_init) = Some (batches, s') \<and>
      length batches = 3 \<and> map fst batches = [Num 4, Num 4, Num 4] \<and>
      map fst batches \<noteq> [Num 5, Num 5, Num 2])"
  using batches_5_12[of "(CONFIG (\<lambda>k. None))\<lparr>cfg_concurrentRequests := Num 5, cfg_totalRequests := Num 12\<rparr>"
      "\<lambda>b i. (0, 1, Resolved 200)" stats_init]
  by (simp add: CONFIG_no_env)

section \<open>Request identifiers\<close>

text \<open>
  Every request of a batch gets the identifier \<open>batchNumber * batchSize + i + 1\<close>, where
  \<open>batchSize\<close> is the size of that very batch.
\<close>

lemma request_ids_of_batch:
  "executeConcurrentRequests world bn (Num q) s = Some (ids, s') \<Longrightarrow>
   ids = map (\<lambda>i. js_add (js_add (js_mul (Num (of_nat bn)) (Num q)) (Num (of_nat i))) (Num 1))
           [0..<nat \<lceil>q\<rceil>]"
  by (auto simp: executeConcurrentRequests_Num requestId_of_def)

text \<open>
  Claim C6, evaluated at concurrency 3 and total 10. The batches have sizes 3, 3, 3 and 1, and
  the single request of the fourth batch gets the identifier \<open>3 * 1 + 0 + 1 = 4\<close>, after the
  identifiers 1 to 9: over the dispatch order the identifiers are neither increasing nor
  distinct.
\<close>

theorem request_ids_3_10:
  "\<exists>batches s'.
     batch_loop world ((CONFIG (\<lambda>k. None))\<lparr>cfg_concurrentRequests := Num 3, cfg_totalRequests := Num 10\<rparr>) 0 ([], s)
       = Some (batches, s') \<and>
     map fst batches = [Num 3, Num 3, Num 3, Num 1] \<and>
     concat (map snd batches) =
       [Num 1, Num 2, Num 3, Num 4, Num 5, Num 6, Num 7, Num 8, Num 9, Num 4] \<and>
     \<not> sorted_wrt js_lt (concat (map snd batches)) \<and>
     \<not> distinct (concat (map snd batches))"
proof -
  let ?cfg = "(CONFIG (\<lambda>k. None))\<lparr>cfg_concurrentRequests := Num 3, cfg_totalRequests := Num 10\<rparr>"
  have nb: "numBatches ?cfg = Num 4"
    by (simp add: numBatches_def CONFIG_no_env)
  have rpb: "requestsPerBatch ?cfg = Num 3"
    by (simp add: requestsPerBatch_def nb)
  have t: "cfg_totalRequests ?cfg = Num 10" by simp
  show ?thesis
    by (simp add: batch_loop.simps nb rpb t js_sub_def executeConcurrentRequests_Num
        requestId_of_def Let_def upt_0_3)
qed

section \<open>The statistics of a run\<close>

lemma makeRequest_counts:
  "totalRequests (snd (makeRequest requestId c s)) = totalRequests s + 1 \<and>
   successfulRequests (snd (makeRequest requestId c s)) + failedRequests (snd (makeRequest requestId c s)) =
     successfulRequests s + failedRequests s + 1"
proof -
  obtain t0 t1 r where c: "c = (t0, t1, r)" by (cases c)
  show ?thesis unfolding c by (cases r) (simp_all add: finally_block_def Let_def)
qed

lemma makeRequest_inv:
  assumes "totalRequests s = successfulRequests s + failedRequests s"
  shows "totalRequests (snd (makeRequest requestId c s)) =
    successfulRequests (snd (makeRequest requestId c s)) + failedRequests (snd (makeRequest requestId c s))"
  using assms makeRequest_counts[of requestId c s] by simp

text \<open>Any sequence of settling requests, in any order, keeps the counters consistent.\<close>

lemma foldl_makeRequest_inv:
  "totalRequests s = successfulRequests s + failedRequests s \<Longrightarrow>
   totalRequests (foldl (\<lambda>s' (requestId, c). snd (makeRequest requestId c s')) s cs) =
   successfulRequests (foldl (\<lambda>s' (requestId, c). snd (makeRequest requestId c s')) s cs) +
   failedRequests (foldl (\<lambda>s' (requestId, c). snd (makeRequest requestId c s')) s cs)"
proof (induction cs arbitrary: s)
  case Nil
  then show ?case by simp
next
  case (Cons x cs)
  obtain rid c where x: "x = (rid, c)" by (cases x)
  show ?case
    unfolding x using Cons.IH[OF makeRequest_inv[OF Cons.prems, of rid c]] by simp
qed

lemma settle_all_inv:
  "totalRequests s = successfulRequests s + failedRequests s \<Longrightarrow>
   totalRequests (settle_all ps s) = successfulRequests (settle_all ps s) + failedRequests (settle_all ps s)"
  unfolding settle_all_def by (rule foldl_makeRequest_inv)

text \<open>The batch loop keeps them consistent as well, by induction on its unfolding.\<close>

lemma batch_loop_inv:
  assumes "batch_loop world cfg b st = Some st'"
    and "totalRequests (snd st) = successfulRequests (snd st) + failedRequests (snd st)"
  shows "totalRequests (snd st') = successfulRequests (snd st') + failedRequests (snd st')"
proof -
  have "totalRequests (snd st) = successfulRequests (snd st) + failedRequests (snd st) \<longrightarrow>
    totalRequests (snd st') = successfulRequests (snd st') + failedRequests (snd st')"
    by (rule batch_loop.raw_induct[where P = "\<lambda>world cfg b st st'.
          totalRequests (snd st) = successfulRequests (snd st) + failedRequests (snd st) \<longrightarrow>
          totalRequests (snd st') = successfulRequests (snd st') + failedRequests (snd st')",
          OF _ assms(1)])
      (auto simp: Let_def executeConcurrentRequests_def settle_all_inv
         split: if_splits option.splits)
  with assms(2) show ?thesis by simp
qed

text \<open>A run of three requests in batches of two, the single request of the second batch failing.\<close>

lemma run_2_3:
  "runStressTest (\<lambda>b i. (0, 1, if b = 1 then Rejected ''timeout'' else Resolved 200)) 0 1
      ((CONFIG (\<lambda>k. None))\<lparr>cfg_concurrentRequests := Num 2, cfg_totalRequests := Num 3\<rparr>) stats_init =
   Some ([(Num 2, [Num 1, Num 2]), (Num 1, [Num 2])],
         \<lparr>totalRequests = 3, successfulRequests = 2, failedRequests = 1, totalResponseTime = 2,
          minResponseTime = Num 1, maxResponseTime = 1, responseTimes = [1, 1], startTime = 0,
          endTime = 1, errors = [(Num 2, ''timeout'', 1)]\<rparr>,
         printStatistics
           \<lparr>totalRequests = 3, successfulRequests = 2, failedRequests = 1, totalResponseTime = 2,
            minResponseTime = Num 1, maxResponseTime = 1, responseTimes = [1, 1], startTime = 0,
            endTime = 1, errors = [(Num 2, ''timeout'', 1)]\<rparr>)"
proof -
  let ?cfg = "(CONFIG (\<lambda>k. None))\<lparr>cfg_concurrentRequests := Num 2, cfg_totalRequests := Num 3\<rparr>"
  have nb: "numBatches ?cfg = Num 2"
    by (simp add: numBatches_def CONFIG_no_env)
  have rpb: "requestsPerBatch ?cfg = Num 2"
    by (simp add: requestsPerBatch_def nb)
  have t: "cfg_totalRequests ?cfg = Num 3" by simp
  show ?thesis
    by (simp add: runStressTest_def batch_loop.simps nb rpb t js_sub_def
        executeConcurrentRequests_Num requestId_of_def Let_def upt_0_2 settle_all_def
        finally_block_def stats_init_def)
       (simp add: numeral_3_eq_3 numeral_2_eq_2)
qed

text \<open>
  Claim C4. The statistics start with \<open>totalRequests = successfulRequests + failedRequests\<close>.
  A request that succeeds increments \<open>successfulRequests\<close> and \<open>totalRequests\<close> by one and
  leaves \<open>failedRequests\<close>; a request that fails increments \<open>failedRequests\<close> and
  \<open>totalRequests\<close> by one and leaves \<open>successfulRequests\<close>. So the equation holds after
  every completed request, after any sequence of completions, and in the statistics a run
  of \<open>runStressTest\<close> ends with.
\<close>

theorem total_is_successful_plus_failed:
  "totalRequests stats_init = successfulRequests stats_init + failedRequests stats_init \<and>
   (successfulRequests (snd (makeRequest requestId (t0, t1, Resolved status) s)) = successfulRequests s + 1 \<and>
    failedRequests (snd (makeRequest requestId (t0, t1, Resolved status) s)) = failedRequests s \<and>
    totalRequests (snd (makeRequest requestId (t0, t1, Resolved status) s)) = totalRequests s + 1) \<and>
   (successfulRequests (snd (makeRequest requestId (t0, t1, Rejected message) s)) = successfulRequests s \<and>
    failedRequests (snd (makeRequest requestId (t0, t1, Rejected message) s)) = failedRequests s + 1 \<and>
    totalRequests (snd (makeRequest requestId (t0, t1, Rejected message) s)) = totalRequests s + 1) \<and>
   (totalRequests s = successfulRequests s + failedRequests s \<longrightarrow>
      totalRequests (snd (makeRequest requestId c s)) =
        successfulRequests (snd (makeRequest requestId c s)) +
        failedRequests (snd (makeRequest requestId c s))) \<and>
   (totalRequests s = successfulRequests s + failedRequests s \<longrightarrow>
      totalRequests (foldl (\<lambda>s' (requestId, c). snd (makeRequest requestId c s')) s cs) =
        successfulRequests (foldl (\<lambda>s' (requestId, c). snd (makeRequest requestId c s')) s cs) +
        failedRequests (foldl (\<lambda>s' (requestId, c). snd (makeRequest requestId c s')) s cs)) \<and>
   (runStressTest world now0 now1 cfg stats_init = Some (batches, s', rep) \<longrightarrow>
      totalRequests s' = successfulRequests s' + failedRequests s')"
proof -
  have init: "totalRequests stats_init = successfulRequests stats_init + failedRequests stats_init"
    by (simp add: stats_init_def)
  have ok: "successfulRequests (snd (makeRequest requestId (t0, t1, Resolved status) s)) = successfulRequests s + 1 \<and>
    failedRequests (snd (makeRequest requestId (t0, t1, Resolved status) s)) = failedRequests s \<and>
    totalRequests (snd (makeRequest requestId (t0, t1, Resolved status) s)) = totalRequests s + 1"
    by (simp add: finally_block_def Let_def)
  have ko: "successfulRequests (snd (makeRequest requestId (t0, t1, Rejected message) s)) = successfulRequests s \<and>
    failedRequests (snd (makeRequest requestId (t0, t1, Rejected message) s)) = failedRequests s + 1 \<and>
    totalRequests (snd (makeRequest requestId (t0, t1, Rejected message) s)) = totalRequests s + 1"
    by (simp add: finally_block_def Let_def)
  have run: "totalRequests s' = successfulRequests s' + failedRequests s'"
    if r: "runStressTest world now0 now1 cfg stats_init = Some (batches, s', rep)"
  proof -
    from r obtain s1 where
      loop: "batch_loop world cfg 0 ([], stats_init\<lparr>startTime := now0\<rparr>) = Some (batches, s1)"
      and s': "s' = s1\<lparr>endTime := now1\<rparr>"
      by (auto simp: runStressTest_def Let_def split: option.splits)
    have "totalRequests (snd (batches, s1)) =
        successfulRequests (snd (batches, s1)) + failedRequests (snd (batches, s1))"
      by (rule batch_loop_inv[OF loop]) (simp add: stats_init_def)
    then show ?thesis by (simp add: s')
  qed
  from init ok ko run makeRequest_inv[of s requestId c] foldl_makeRequest_inv[of s cs]
  show ?thesis by blast
qed

text \<open>The theorem on the run of three requests above: two successes, one failure.\<close>

theorem total_is_successful_plus_failed_witness:
  "\<exists>batches s' rep.
     runStressTest (\<lambda>b i. (0, 1, if b = 1 then Rejected ''timeout'' else Resolved 200)) 0 1
       ((CONFIG (\<lambda>k. None))\<lparr>cfg_concurrentRequests := Num 2, cfg_totalRequests := Num 3\<rparr>) stats_init =
       Some (batches, s', rep) \<and>
     totalRequests s' = successfulRequests s' + failedRequests s' \<and>
     totalRequests s' = 3 \<and> successfulRequests s' = 2 \<and> failedRequests s' = 1"
  using run_2_3
    total_is_successful_plus_failed[of "Num 1" 0 1 200 stats_init "''timeout''"
      "(0, 1, Rejected ''timeout'')" "[]"
      "\<lambda>b i. (0, 1, if b = 1 then Rejected ''timeout'' else Resolved 200)" 0 1
      "(CONFIG (\<lambda>k. None))\<lparr>cfg_concurrentRequests := Num 2, cfg_totalRequests := Num 3\<rparr>"
      "[(Num 2, [Num 1, Num 2]), (Num 1, [Num 2])]"
      "\<lparr>totalRequests = 3, successfulRequests = 2, failedRequests = 1, totalResponseTime = 2,
          minResponseTime = Num 1, maxResponseTime = 1, responseTimes = [1, 1], startTime = 0,
          endTime = 1, errors = [(Num 2, ''timeout'', 1)]\<rparr>"]
  by simp

text \<open>
  Claim C9. A request that fails changes \<open>failedRequests\<close>, \<open>errors\<close> and \<open>totalRequests\<close>
  only: \<open>totalResponseTime\<close>, \<open>minResponseTime\<close>, \<open>maxResponseTime\<close> and \<open>responseTimes\<close>
  (and \<open>successfulRequests\<close>, \<open>startTime\<close>, \<open>endTime\<close>) keep their values.
\<close>

theorem failed_request_frame:
  "makeRequest requestId (t0, t1, Rejected message) s =
     (Failure (t1 - t0) message,
      s\<lparr>failedRequests := failedRequests s + 1,
        errors := errors s @ [(requestId, message, t1 - t0)],
        totalRequests := totalRequests s + 1\<rparr>) \<and>
   totalResponseTime (snd (makeRequest requestId (t0, t1, Rejected message) s)) = totalResponseTime s \<and>
   minResponseTime (snd (makeRequest requestId (t0, t1, Rejected message) s)) = minResponseTime s \<and>
   maxResponseTime (snd (makeRequest requestId (t0, t1, Rejected message) s)) = maxResponseTime s \<and>
   responseTimes (snd (makeRequest requestId (t0, t1, Rejected message) s)) = responseTimes s \<and>
   successfulRequests (snd (makeRequest requestId (t0, t1, Rejected message) s)) = successfulRequests s \<and>
   startTime (snd (makeRequest requestId (t0, t1, Rejected message) s)) = startTime s \<and>
   endTime (snd (makeRequest requestId (t0, t1, Rejected message) s)) = endTime s"
  by (simp add: finally_block_def Let_def)

section \<open>Properties of the rounding\<close>








lemma binary64_pos_eq:
  assumes "0 < x"
    and "rat_of_int (round_even (x / 2 powi (max (ilog2 x) (- 1022) - 52))) *
           2 powi (max (ilog2 x) (- 1022) - 52) < 2 powi 1024"
  shows "binary64 x =
    Num (of_int (round_even (x / 2 powi (max (ilog2 x) (- 1022) - 52))) *
           2 powi (max (ilog2 x) (- 1022) - 52))"
  using assms by (simp add: binary64_def Let_def not_le[symmetric])

text \<open>Evaluation of a positive input from its exponent and its rounded significand.\<close>

lemma binary64_eval:
  assumes "0 < x" and "ilog2 x = e" and "(2::rat) powi (max e (- 1022) - 52) = ulp"
    and "round_even (x / ulp) = n" and "rat_of_int n * ulp = r" and "r < 2 powi 1024"
  shows "binary64 x = Num r"
  using binary64_pos_eq[of x] assms by simp








text \<open>The rounding never yields \<open>NaN\<close>.\<close>

lemma binary64_not_NaN: "binary64 x \<noteq> NaN"
  by (simp add: binary64_def Let_def)

text \<open>Floor and ceiling of a unit fraction, for evaluating concrete inputs.\<close>

lemma floor_one_divide_rat [simp]: "\<lfloor>1 / numeral b :: rat\<rfloor> = 1 div numeral b"
  using floor_divide_of_int_eq[of 1 "numeral b", where ?'a = rat] by simp

lemma ceiling_one_divide_rat [simp]: "\<lceil>1 / numeral b :: rat\<rceil> = - (- 1 div numeral b)"
  using ceiling_divide_eq_div[of 1 "numeral b", where ?'a = rat] by simp










section \<open>Percentiles\<close>















section \<open>The report of a run without requests\<close>

text \<open>
  Claim C5, evaluated on the default configuration with \<open>--total 0\<close>. The loop issues no
  batch, the counters stay at zero and nothing fails; but the success rate is
  \<open>(0 / 0) * 100 = NaN\<close> and the report prints \<open>Success Rate: NaN%\<close>, where the average
  response time on the line before it in the source is guarded against a zero count.
  The throughput is \<open>0\<close> unless the two clock readings coincide, and \<open>NaN\<close> then.
\<close>

theorem zero_total_report:
  "parseArgs [''--total'', ''0''] (CONFIG (\<lambda>k. None)) =
     Inr ((CONFIG (\<lambda>k. None))\<lparr>cfg_totalRequests := Num 0\<rparr>) \<and>
   runStressTest world now0 now1 ((CONFIG (\<lambda>k. None))\<lparr>cfg_totalRequests := Num 0\<rparr>) stats_init =
     Some ([], stats_init\<lparr>startTime := now0, endTime := now1\<rparr>,
           printStatistics (stats_init\<lparr>startTime := now0, endTime := now1\<rparr>)) \<and>
   rep_successRate (printStatistics (stats_init\<lparr>startTime := now0, endTime := now1\<rparr>)) = NaN \<and>
   rep_requestsPerSecond (printStatistics (stats_init\<lparr>startTime := now0, endTime := now1\<rparr>)) =
     (if now1 = now0 then NaN else Num 0) \<and>
   take 4 (rep_lines (printStatistics (stats_init\<lparr>startTime := now0, endTime := now1\<rparr>))) =
     [''Total Requests: 0'', ''Successful: 0'', ''Failed: 0'', ''Success Rate: NaN%'']"
proof -
  have a: "parseArgs [''--total'', ''0''] (CONFIG (\<lambda>k. None)) =
     Inr ((CONFIG (\<lambda>k. None))\<lparr>cfg_totalRequests := Num 0\<rparr>)"
    by (simp add: next_arg_def js_ToString_def parseInt_zero)
  have b: "runStressTest world now0 now1 ((CONFIG (\<lambda>k. None))\<lparr>cfg_totalRequests := Num 0\<rparr>) stats_init =
     Some ([], stats_init\<lparr>startTime := now0, endTime := now1\<rparr>,
           printStatistics (stats_init\<lparr>startTime := now0, endTime := now1\<rparr>))"
    by (simp add: runStressTest_def batch_loop_zero_total Let_def)
  have c: "rep_successRate (printStatistics (stats_init\<lparr>startTime := now0, endTime := now1\<rparr>)) = NaN"
    by (simp add: printStatistics_def stats_init_def Let_def)
  have d: "rep_requestsPerSecond (printStatistics (stats_init\<lparr>startTime := now0, endTime := now1\<rparr>)) =
     (if now1 = now0 then NaN else Num 0)"
    by (simp add: printStatistics_def stats_init_def Let_def)
  have e: "take 4 (rep_lines (printStatistics (stats_init\<lparr>startTime := now0, endTime := now1\<rparr>))) =
     [''Total Requests: 0'', ''Successful: 0'', ''Failed: 0'', ''Success Rate: NaN%'']"
    by (simp add: printStatistics_def stats_init_def nat_to_dec.simps Let_def)
  from a b c d e show ?thesis by (simp only: simp_thms)
qed

section \<open>Environment variables and command-line flags\<close>

text \<open>
  Claim C8. An environment variable set to the string \<open>0\<close> parses to the number 0, which is
  falsy, so \<open>parseInt(...) || default\<close> gives the built-in default (100, 10, 1000 and 5000).
  The command-line flag stores \<open>parseInt\<close> of its value as it is, so \<open>--total 0\<close>,
  \<open>--concurrent 0\<close>, \<open>--delay 0\<close> and \<open>--timeout 0\<close> set the field to 0.
\<close>

theorem zero_env_gives_default_zero_flag_gives_zero:
  "(env ''TOTAL_REQUESTS'' = Some ''0'' \<longrightarrow> cfg_totalRequests (CONFIG env) = Num 100) \<and>
   (env ''CONCURRENT_REQUESTS'' = Some ''0'' \<longrightarrow> cfg_concurrentRequests (CONFIG env) = Num 10) \<and>
   (env ''DELAY_BETWEEN_BATCHES'' = Some ''0'' \<longrightarrow> cfg_delayBetweenBatches (CONFIG env) = Num 1000) \<and>
   (env ''TIMEOUT'' = Some ''0'' \<longrightarrow> cfg_timeout (CONFIG env) = Num 5000) \<and>
   parseArgs [''--total'', ''0''] cfg = Inr (cfg\<lparr>cfg_totalRequests := Num 0\<rparr>) \<and>
   parseArgs [''--concurrent'', ''0''] cfg = Inr (cfg\<lparr>cfg_concurrentRequests := Num 0\<rparr>) \<and>
   parseArgs [''--delay'', ''0''] cfg = Inr (cfg\<lparr>cfg_delayBetweenBatches := Num 0\<rparr>) \<and>
   parseArgs [''--timeout'', ''0''] cfg = Inr (cfg\<lparr>cfg_timeout := Num 0\<rparr>)"
  by (simp add: CONFIG_def js_ToString_def parseInt_zero js_or_def js_truthy_def next_arg_def)

text \<open>The theorem with every environment variable set to \<open>0\<close>.\<close>

theorem zero_env_gives_default_zero_flag_gives_zero_witness:
  "cfg_totalRequests (CONFIG (\<lambda>k. Some ''0'')) = Num 100 \<and>
   cfg_concurrentRequests (CONFIG (\<lambda>k. Some ''0'')) = Num 10 \<and>
   cfg_delayBetweenBatches (CONFIG (\<lambda>k. Some ''0'')) = Num 1000 \<and>
   cfg_timeout (CONFIG (\<lambda>k. Some ''0'')) = Num 5000 \<and>
   parseArgs [''--total'', ''0''] (CONFIG (\<lambda>k. Some ''0'')) =
     Inr ((CONFIG (\<lambda>k. Some ''0''))\<lparr>cfg_totalRequests := Num 0\<rparr>)"
  using zero_env_gives_default_zero_flag_gives_zero[of "\<lambda>k. Some ''0''" "CONFIG (\<lambda>k. Some ''0'')"]
  by simp

section \<open>The constant endpoint\<close>




end
